theory Spec2Isabelle
  imports Complex_Main "HOL-Library.Sublist"
begin

section \<open>The waveform generator script: data, collaborators and state\<close>

text \<open>
  The script \<^verbatim>\<open>Random_waveform_code.py\<close> drives a bench waveform generator. Its class
  \<^verbatim>\<open>WaveformGenerator\<close> turns each parameter into one SCPI text command written to a
  device handle, transcodes a CSV file of samples into a file of packed floats, and
  uploads that file; \<^verbatim>\<open>WaveformGUI.execute_redis_command\<close> parses a command string
  fetched from a key/value store and calls the generator.

  A Python exception is a value of \<open>py_error\<close>; every method returns the exception it
  raised (or \<open>None\<close> when it returned) together with the state it left behind, because
  what was written before an exception stays written.
\<close>

datatype py_error =
    FileNotFoundError | StopIteration | ValueError | OverflowError
  | TypeError | IndexError | AttributeError | DeviceError

text \<open>
  What the device handle is asked to do: \<^verbatim>\<open>device.write(command)\<close> and
  \<^verbatim>\<open>device.write_binary_values(header, data, datatype='B')\<close>.
\<close>

datatype dev_io = Write string | WriteBinary string string

text \<open>
  The state the script acts on: the regular files of the file system (path to content,
  a content being a sequence of bytes, written as characters), the key/value store, the
  calls made on the device handle in the order they were made, and the lines printed.
\<close>

record world =
  files :: "string \<rightharpoonup> string"
  redis :: "string \<rightharpoonup> string"
  device_log :: "dev_io list"
  stdout :: "string list"

text \<open>
  The library functions and the instrument are collaborators whose code is not part of
  the script; they are parameters of the model. \<open>'f\<close> is the type of Python floats.
  \<^item> \<open>py_float s\<close> is \<^verbatim>\<open>float(s)\<close>, \<open>None\<close> when it raises ValueError;
  \<^item> \<open>struct_pack_f x\<close> is \<^verbatim>\<open>struct.pack('f', x)\<close>, \<open>None\<close> when it raises. The
    format \<^verbatim>\<open>'f'\<close> is the native one: its byte order is the host's, and a float
    beyond the single-precision range is packed as an infinity, not refused;
  \<^item> \<open>str_float x\<close> is the text an f-string gives a float;
  \<^item> \<open>csv_reader text\<close> is the list of rows \<^verbatim>\<open>csv.reader\<close> yields over a file of
    that content;
  \<^item> \<open>device_raises log io\<close> says whether the device handle raises on the call \<open>io\<close>
    after the calls \<open>log\<close>.
\<close>

record 'f collab =
  py_float :: "string \<Rightarrow> 'f option"
  struct_pack_f :: "'f \<Rightarrow> string option"
  str_float :: "'f \<Rightarrow> string"
  csv_reader :: "string \<Rightarrow> string list list"
  device_raises :: "dev_io list \<Rightarrow> dev_io \<Rightarrow> bool"

type_synonym result = "py_error option \<times> world"

text \<open>Sequencing: a statement after a call runs only when the call did not raise.\<close>

definition and_then :: "result \<Rightarrow> (world \<Rightarrow> result) \<Rightarrow> result" where
  "and_then r f = (case r of (None, w) \<Rightarrow> f w | (Some e, w) \<Rightarrow> (Some e, w))"

definition print :: "string \<Rightarrow> world \<Rightarrow> world" where
  "print line w = w\<lparr>stdout := stdout w @ [line]\<rparr>"

subsection \<open>Library functions on strings and paths\<close>

text \<open>\<^verbatim>\<open>str(n)\<close> for an integer: decimal digits, with a minus sign below zero.\<close>

fun str_nat :: "nat \<Rightarrow> string" where
  "str_nat n =
     (if n < 10 then [char_of (48 + n)]
      else str_nat (n div 10) @ [char_of (48 + n mod 10)])"

definition str_int :: "int \<Rightarrow> string" where
  "str_int i = (if i < 0 then CHR ''-'' # str_nat (nat (- i)) else str_nat (nat i))"

text \<open>
  \<^verbatim>\<open>str.isspace\<close> on the code points below 256, and \<^verbatim>\<open>str.split()\<close> with no
  argument: runs of whitespace separate the words, and no word is empty.
\<close>

definition isspace :: "char \<Rightarrow> bool" where
  "isspace c =
     (let n = (of_char c :: nat)
      in (9 \<le> n \<and> n \<le> 13) \<or> (28 \<le> n \<and> n \<le> 32) \<or> n = 133 \<or> n = 160)"

fun split_from :: "string \<Rightarrow> string \<Rightarrow> string list" where
  "split_from cur [] = (if cur = [] then [] else [rev cur])"
| "split_from cur (c # cs) =
     (if isspace c then (if cur = [] then split_from [] cs else rev cur # split_from [] cs)
      else split_from (c # cur) cs)"

definition str_split :: "string \<Rightarrow> string list" where
  "str_split s = split_from [] s"

text \<open>
  \<^verbatim>\<open>s.rfind(c)\<close>: the index of the last occurrence, \<open>-1\<close> when there is none.
\<close>

fun rfind :: "char \<Rightarrow> string \<Rightarrow> int" where
  "rfind c [] = - 1"
| "rfind c (x # xs) =
     (let r = rfind c xs in if r \<ge> 0 then r + 1 else if x = c then 0 else - 1)"

text \<open>
  \<^verbatim>\<open>os.path.basename\<close> and \<^verbatim>\<open>os.path.splitext\<close> of \<^verbatim>\<open>posixpath\<close>. The
  extension starts at the last dot of the last component, unless only dots stand
  between the start of that component and this dot (leading dots belong to the root).
\<close>

definition basename :: "string \<Rightarrow> string" where
  "basename p = drop (nat (rfind CHR ''/'' p + 1)) p"

definition splitext :: "string \<Rightarrow> string \<times> string" where
  "splitext p =
     (let sepIndex = rfind CHR ''/'' p;
          dotIndex = rfind CHR ''.'' p
      in if dotIndex > sepIndex \<and>
            list_ex (\<lambda>c. c \<noteq> CHR ''.'')
              (take (nat (dotIndex - (sepIndex + 1))) (drop (nat (sepIndex + 1)) p))
         then (take (nat dotIndex) p, drop (nat dotIndex) p)
         else (p, []))"

text \<open>\<^verbatim>\<open>os.path.isfile\<close>: the path names a regular file.\<close>

definition isfile :: "world \<Rightarrow> string \<Rightarrow> bool" where
  "isfile w p = (files w p \<noteq> None)"

subsection \<open>The single-purpose setters\<close>

definition device_call :: "'f collab \<Rightarrow> dev_io \<Rightarrow> world \<Rightarrow> result" where
  "device_call env io w =
     (let w' = w\<lparr>device_log := device_log w @ [io]\<rparr>
      in if device_raises env (device_log w) io then (Some DeviceError, w') else (None, w'))"

definition send_command :: "'f collab \<Rightarrow> string \<Rightarrow> world \<Rightarrow> result" where
  "send_command env command w =
     device_call env (Write command) (print (''Sending command: '' @ command) w)"

definition set_waveform_type :: "'f collab \<Rightarrow> int \<Rightarrow> string \<Rightarrow> world \<Rightarrow> result" where
  "set_waveform_type env chan waveform_type =
     send_command env (''C'' @ str_int chan @ '':BSWV WVTP,'' @ waveform_type)"

definition set_frequency :: "'f collab \<Rightarrow> int \<Rightarrow> 'f \<Rightarrow> world \<Rightarrow> result" where
  "set_frequency env chan frequency =
     send_command env (''C'' @ str_int chan @ '':BSWV FRQ,'' @ str_float env frequency)"

definition set_amplitude :: "'f collab \<Rightarrow> int \<Rightarrow> 'f \<Rightarrow> world \<Rightarrow> result" where
  "set_amplitude env chan amplitude =
     send_command env (''C'' @ str_int chan @ '':BSWV AMP,'' @ str_float env amplitude)"

definition set_phase :: "'f collab \<Rightarrow> int \<Rightarrow> 'f \<Rightarrow> world \<Rightarrow> result" where
  "set_phase env chan phase =
     send_command env (''C'' @ str_int chan @ '':BSWV PHSE,'' @ str_float env phase)"

definition set_offset :: "'f collab \<Rightarrow> int \<Rightarrow> 'f \<Rightarrow> world \<Rightarrow> result" where
  "set_offset env chan offset =
     send_command env (''C'' @ str_int chan @ '':BSWV OFST,'' @ str_float env offset)"

definition start_waveform :: "'f collab \<Rightarrow> int \<Rightarrow> world \<Rightarrow> result" where
  "start_waveform env chan = send_command env (''C'' @ str_int chan @ '':OUTP ON'')"

definition stop_waveform :: "'f collab \<Rightarrow> int \<Rightarrow> world \<Rightarrow> result" where
  "stop_waveform env chan = send_command env (''C'' @ str_int chan @ '':OUTP OFF'')"

definition set_arbitrary_waveform_by_name ::
  "'f collab \<Rightarrow> int \<Rightarrow> string \<Rightarrow> world \<Rightarrow> result" where
  "set_arbitrary_waveform_by_name env chan name =
     send_command env (''C'' @ str_int chan @ '':ARWV NAME,'' @ name)"

subsection \<open>The transcoder\<close>

text \<open>
  \<^verbatim>\<open>list(map(float, row))\<close> converts the fields from left to right and raises
  ValueError at the first that is not a number; \<^verbatim>\<open>struct.pack('f' * n, *float_row)\<close>
  is the concatenation of the packed floats.
\<close>

fun map_float :: "'f collab \<Rightarrow> string list \<Rightarrow> py_error + 'f list" where
  "map_float env [] = Inr []"
| "map_float env (s # ss) =
     (case py_float env s of
        None \<Rightarrow> Inl ValueError
      | Some x \<Rightarrow> (case map_float env ss of Inl e \<Rightarrow> Inl e | Inr xs \<Rightarrow> Inr (x # xs)))"

fun struct_pack :: "'f collab \<Rightarrow> 'f list \<Rightarrow> py_error + string" where
  "struct_pack env [] = Inr []"
| "struct_pack env (x # xs) =
     (case struct_pack_f env x of
        None \<Rightarrow> Inl OverflowError
      | Some b \<Rightarrow> (case struct_pack env xs of Inl e \<Rightarrow> Inl e | Inr bs \<Rightarrow> Inr (b @ bs)))"

definition file_write :: "string \<Rightarrow> string \<Rightarrow> world \<Rightarrow> world" where
  "file_write path bytes w =
     w\<lparr>files := (files w)(path \<mapsto> (case files w path of None \<Rightarrow> [] | Some old \<Rightarrow> old) @ bytes)\<rparr>"

text \<open>The loop \<^verbatim>\<open>for row in reader\<close>: each row is converted, packed and written.\<close>

fun write_rows :: "'f collab \<Rightarrow> string \<Rightarrow> string list list \<Rightarrow> world \<Rightarrow> result" where
  "write_rows env bin_filename [] w = (None, w)"
| "write_rows env bin_filename (row # rows) w =
     (case map_float env row of
        Inl e \<Rightarrow> (Some e, w)
      | Inr float_row \<Rightarrow>
          (case struct_pack env float_row of
             Inl e \<Rightarrow> (Some e, w)
           | Inr bin_row \<Rightarrow> write_rows env bin_filename rows (file_write bin_filename bin_row w)))"

text \<open>
  \<^verbatim>\<open>convert_csv_to_binary\<close>. The \<^verbatim>\<open>with\<close> statement opens the CSV file for reading,
  then opens the output for writing, which creates it or truncates it; the reader reads
  only afterwards, so it sees what the CSV path holds after the truncation. Leaving the
  \<^verbatim>\<open>with\<close> block, also by an exception, closes the output with all that was written.
\<close>

definition convert_csv_to_binary ::
  "'f collab \<Rightarrow> string \<Rightarrow> string \<Rightarrow> world \<Rightarrow> result" where
  "convert_csv_to_binary env csv_filename bin_filename w =
     (if \<not> isfile w csv_filename then (Some FileNotFoundError, w)
      else
        let w1 = w\<lparr>files := (files w)(bin_filename \<mapsto> [])\<rparr> in
        (case files w1 csv_filename of
           None \<Rightarrow> (Some FileNotFoundError, w)
         | Some text \<Rightarrow>
             (case csv_reader env text of
                [] \<Rightarrow> (Some StopIteration, w1)
              | header # rows \<Rightarrow>
                  and_then (write_rows env bin_filename rows w1)
                    (\<lambda>w2. (None,
                       print (''Converted '' @ csv_filename @ '' to '' @ bin_filename) w2)))))"

text \<open>
  Two notions to state what the transcoder writes. A field is numeric when \<^verbatim>\<open>float\<close>
  accepts it and \<^verbatim>\<open>struct.pack('f', ...)\<close> accepts the float; its bytes are then the
  packed float.
\<close>

definition numeric_field :: "'f collab \<Rightarrow> string \<Rightarrow> bool" where
  "numeric_field env s =
     (case py_float env s of None \<Rightarrow> False | Some x \<Rightarrow> struct_pack_f env x \<noteq> None)"

definition field_bytes :: "'f collab \<Rightarrow> string \<Rightarrow> string" where
  "field_bytes env s =
     (case py_float env s of
        None \<Rightarrow> []
      | Some x \<Rightarrow> (case struct_pack_f env x of None \<Rightarrow> [] | Some b \<Rightarrow> b))"

subsection \<open>Upload and the composite operation\<close>

text \<open>
  \<^verbatim>\<open>save_binary_waveform_to_device\<close> names the waveform after the binary file and
  sends the whole file in one binary write whose header starts with \<^verbatim>\<open>C1:\<close>.
\<close>

definition save_binary_waveform_to_device :: "'f collab \<Rightarrow> string \<Rightarrow> world \<Rightarrow> result" where
  "save_binary_waveform_to_device env bin_filename w =
     (let waveform_name = fst (splitext (basename bin_filename)) in
      case files w bin_filename of
        None \<Rightarrow> (Some FileNotFoundError, w)
      | Some data \<Rightarrow>
          and_then
            (device_call env
               (WriteBinary (''C1:WVDT WVNM,'' @ waveform_name @ '',WAVEDATA,'') data) w)
            (\<lambda>w'. (None,
               print (''Binary waveform '' @ bin_filename @ '' saved to device as '' @
                      waveform_name @ ''.'') w')))"

definition upload_and_generate_waveform ::
  "'f collab \<Rightarrow> int \<Rightarrow> string \<Rightarrow> 'f \<Rightarrow> 'f \<Rightarrow> 'f \<Rightarrow> 'f \<Rightarrow> world \<Rightarrow> result" where
  "upload_and_generate_waveform env chan csv_filename frequency amplitude phase offset w =
     (let bin_filename = fst (splitext csv_filename) @ ''.bin'' in
      and_then (convert_csv_to_binary env csv_filename bin_filename w) (\<lambda>w.
      and_then (save_binary_waveform_to_device env bin_filename w) (\<lambda>w.
      and_then (set_arbitrary_waveform_by_name env chan
                  (fst (splitext (basename csv_filename))) w) (\<lambda>w.
      and_then (set_frequency env chan frequency w) (\<lambda>w.
      and_then (set_amplitude env chan amplitude w) (\<lambda>w.
      and_then (set_phase env chan phase w) (\<lambda>w.
      and_then (set_offset env chan offset w) (\<lambda>w.
      and_then (start_waveform env chan w) (\<lambda>w.
        (None,
         print (''Waveform from '' @ csv_filename @
                '' is now being generated on channel '' @ str_int chan) w))))))))))"

text \<open>
  A Python call checks the number of arguments before the body runs: the method takes
  six positional arguments after \<^verbatim>\<open>self\<close>, none with a default, and a call with
  fewer raises TypeError. The values the script passes are integers, strings and floats.
\<close>

datatype 'f pyval = PInt int | PStr string | PFloat 'f

fun call_upload_and_generate_waveform ::
  "'f collab \<Rightarrow> 'f pyval list \<Rightarrow> world \<Rightarrow> result" where
  "call_upload_and_generate_waveform env
     [PInt chan, PStr csv_filename, PFloat frequency, PFloat amplitude, PFloat phase,
      PFloat offset] w =
     upload_and_generate_waveform env chan csv_filename frequency amplitude phase offset w"
| "call_upload_and_generate_waveform env args w = (Some TypeError, w)"

text \<open>
  To state the order of the device calls: the seven calls of a complete run, given the
  bytes of the binary file, and a runner that makes the calls of a list one after the
  other and stops at the first on which the device raises.
\<close>

definition upload_calls ::
  "'f collab \<Rightarrow> int \<Rightarrow> string \<Rightarrow> 'f \<Rightarrow> 'f \<Rightarrow> 'f \<Rightarrow> 'f \<Rightarrow> string \<Rightarrow> dev_io list" where
  "upload_calls env chan csv_filename frequency amplitude phase offset data =
     [WriteBinary
        (''C1:WVDT WVNM,'' @
         fst (splitext (basename (fst (splitext csv_filename) @ ''.bin''))) @ '',WAVEDATA,'')
        data,
      Write (''C'' @ str_int chan @ '':ARWV NAME,'' @ fst (splitext (basename csv_filename))),
      Write (''C'' @ str_int chan @ '':BSWV FRQ,'' @ str_float env frequency),
      Write (''C'' @ str_int chan @ '':BSWV AMP,'' @ str_float env amplitude),
      Write (''C'' @ str_int chan @ '':BSWV PHSE,'' @ str_float env phase),
      Write (''C'' @ str_int chan @ '':BSWV OFST,'' @ str_float env offset),
      Write (''C'' @ str_int chan @ '':OUTP ON'')]"

fun run_calls :: "'f collab \<Rightarrow> dev_io list \<Rightarrow> dev_io list \<Rightarrow> py_error option \<times> dev_io list" where
  "run_calls env [] sent = (None, sent)"
| "run_calls env (io # ios) sent =
     (if device_raises env sent io then (Some DeviceError, sent @ [io])
      else run_calls env ios (sent @ [io]))"

subsection \<open>The remote command\<close>

text \<open>
  The form's variables the remote command reads: the channel and the key under which
  the command string is stored.
\<close>

record gui =
  self_channel :: int
  self_redis_key :: string

text \<open>\<^verbatim>\<open>parts[i]\<close> raises IndexError beyond the end of the list.\<close>

definition item :: "'a list \<Rightarrow> nat \<Rightarrow> py_error + 'a" where
  "item xs i = (if i < length xs then Inr (xs ! i) else Inl IndexError)"

definition execute_redis_command :: "'f collab \<Rightarrow> gui \<Rightarrow> world \<Rightarrow> result" where
  "execute_redis_command env g w =
     (case redis w (self_redis_key g) of
        None \<Rightarrow> (Some AttributeError, w)
      | Some command \<Rightarrow>
          (let parts = str_split command in
           case item parts 0 of
             Inl e \<Rightarrow> (Some e, w)
           | Inr verb \<Rightarrow>
               if verb = ''upload'' then
                 (case item parts 2 of
                    Inl e \<Rightarrow> (Some e, w)
                  | Inr csv_filename \<Rightarrow>
                      if \<not> isfile w csv_filename
                      then (None, print (''No such file: '' @ [CHR 0x27] @ csv_filename @ [CHR 0x27]) w)
                      else call_upload_and_generate_waveform env
                             [PInt (self_channel g), PStr csv_filename] w)
               else if verb = ''set'' then
                 (case item parts 2 of
                    Inl e \<Rightarrow> (Some e, w)
                  | Inr waveform_type \<Rightarrow>
                      and_then (set_waveform_type env (self_channel g) waveform_type w) (\<lambda>w.
                      case item parts 3 of
                        Inl e \<Rightarrow> (Some e, w)
                      | Inr p3 \<Rightarrow>
                          (case py_float env p3 of
                             None \<Rightarrow> (Some ValueError, w)
                           | Some frequency \<Rightarrow>
                               and_then (set_frequency env (self_channel g) frequency w) (\<lambda>w.
                               case item parts 4 of
                                 Inl e \<Rightarrow> (Some e, w)
                               | Inr p4 \<Rightarrow>
                                   (case py_float env p4 of
                                      None \<Rightarrow> (Some ValueError, w)
                                    | Some amplitude \<Rightarrow>
                                        and_then (set_amplitude env (self_channel g) amplitude w)
                                          (\<lambda>w. start_waveform env (self_channel g) w))))))
               else if verb = ''stop'' then stop_waveform env (self_channel g) w
               else (None, print ''Unknown command.'' w)))"

subsection \<open>A test double of the collaborators\<close>

text \<open>
  To run the model on concrete inputs the collaborators are given a small stand-in:
  floats are rationals, \<open>test_float\<close> knows the literals of the examples with the value
  Python gives them, \<open>test_pack\<close> the bytes the native format gives them on a
  little-endian host (those of plus infinity for \<open>1e40\<close>, which single precision cannot
  hold) and \<open>test_str\<close> their text; \<open>test_float\<close> yields no other value, so the last
  case of \<open>test_pack\<close> is never reached from a field; \<open>test_reader\<close> splits the text at line feeds and
  commas, as \<^verbatim>\<open>csv.reader\<close> does for a text without quotes; the device never raises.
\<close>

definition test_float :: "string \<Rightarrow> rat option" where
  "test_float s =
     (if s = ''0.5'' then Some (1 / 2)
      else if s = ''1.0'' then Some 1
      else if s = ''2.5'' then Some (5 / 2)
      else if s = ''1000'' then Some 1000
      else if s = ''1e40'' then Some (10 ^ 40)
      else None)"

definition test_pack :: "rat \<Rightarrow> string option" where
  "test_pack x =
     (if x = 1 / 2 then Some [CHR 0x00, CHR 0x00, CHR 0x00, CHR 0x3F]
      else if x = 1 then Some [CHR 0x00, CHR 0x00, CHR 0x80, CHR 0x3F]
      else if x = 5 / 2 then Some [CHR 0x00, CHR 0x00, CHR 0x20, CHR 0x40]
      else if x = 1000 then Some [CHR 0x00, CHR 0x00, CHR 0x7A, CHR 0x44]
      else if x = 10 ^ 40 then Some [CHR 0x00, CHR 0x00, CHR 0x80, CHR 0x7F]
      else None)"

definition test_str :: "rat \<Rightarrow> string" where
  "test_str x =
     (if x = 1 / 2 then ''0.5''
      else if x = 1 then ''1.0''
      else if x = 5 / 2 then ''2.5''
      else if x = 1000 then ''1000.0''
      else if x = 10 ^ 40 then ''1e+40''
      else ''?'')"

fun split_at :: "char \<Rightarrow> string \<Rightarrow> string \<Rightarrow> string list" where
  "split_at d cur [] = [rev cur]"
| "split_at d cur (c # cs) =
     (if c = d then rev cur # split_at d [] cs else split_at d (c # cur) cs)"

fun test_lines :: "string \<Rightarrow> string \<Rightarrow> string list" where
  "test_lines cur [] = (if cur = [] then [] else [rev cur])"
| "test_lines cur (c # cs) =
     (if c = CHR 0x0A then rev cur # test_lines [] cs else test_lines (c # cur) cs)"

definition test_reader :: "string \<Rightarrow> string list list" where
  "test_reader text =
     map (\<lambda>l. if l = [] then [] else split_at CHR '','' [] l) (test_lines [] text)"

definition test_env :: "rat collab" where
  "test_env =
     \<lparr>py_float = test_float, struct_pack_f = test_pack, str_float = test_str,
      csv_reader = test_reader, device_raises = (\<lambda>log io. False)\<rparr>"

text \<open>Example states: nothing on disk, nothing stored, nothing sent, nothing printed.\<close>

definition world0 :: world where
  "world0 = \<lparr>files = Map.empty, redis = Map.empty, device_log = [], stdout = []\<rparr>"

text \<open>
  A CSV file of a header and two rows of two numbers, and one whose second row holds a
  field that is no number.
\<close>

definition bad_world :: world where
  "bad_world =
     world0\<lparr>files := [''bad.csv'' \<mapsto> ''t,v\<newline>0.5,1.0\<newline>2.5,oops\<newline>1.0,1.0\<newline>'']\<rparr>"

definition csv_world :: world where
  "csv_world = world0\<lparr>files := [''wave.csv'' \<mapsto> ''t,v\<newline>0.5,1.0\<newline>2.5,1000\<newline>'']\<rparr>"

text \<open>
  A device that raises on the third call made on it, and a disk whose only file is
  named by three dots.
\<close>

definition failing_env :: "rat collab" where
  "failing_env = test_env\<lparr>device_raises := (\<lambda>sent io. length sent = 2)\<rparr>"

definition dots_world :: world where
  "dots_world = world0\<lparr>files := [''...'' \<mapsto> ''t\<newline>1.0\<newline>'']\<rparr>"

text \<open>
  A CSV file stored under a name that ends in \<^verbatim>\<open>.bin\<close>, and one whose rows differ
  in length and hold a field beyond the single-precision range.
\<close>

definition alias_world :: world where
  "alias_world = world0\<lparr>files := [''wave.bin'' \<mapsto> ''t,v\<newline>0.5,1.0\<newline>'']\<rparr>"

definition ragged_world :: world where
  "ragged_world =
     world0\<lparr>files := [''r.csv'' \<mapsto> ''t,v\<newline>0.5\<newline>\<newline>2.5,1e40,1.0\<newline>'']\<rparr>"

definition gui1 :: gui where
  "gui1 = \<lparr>self_channel = 1, self_redis_key = ''cmd''\<rparr>"

definition gui2 :: gui where
  "gui2 = \<lparr>self_channel = 2, self_redis_key = ''cmd''\<rparr>"

section \<open>Evaluation lemmas\<close>

lemma str_int_1: "str_int 1 = ''1''"
  by code_simp

lemma str_int_2: "str_int 2 = ''2''"
  by code_simp

lemma send_command_result:
  "send_command env command w =
     ((if device_raises env (device_log w) (Write command) then Some DeviceError else None),
      w\<lparr>device_log := device_log w @ [Write command],
        stdout := stdout w @ [''Sending command: '' @ command]\<rparr>)"
  by (simp add: send_command_def device_call_def print_def Let_def)

lemma test_reader_bad:
  "test_reader ''t,v\<newline>0.5,1.0\<newline>2.5,oops\<newline>1.0,1.0\<newline>'' =
     [[''t'', ''v''], [''0.5'', ''1.0''], [''2.5'', ''oops''], [''1.0'', ''1.0'']]"
  by (simp add: test_reader_def)

lemmas test_simps =
  test_env_def test_float_def test_pack_def test_str_def numeric_field_def field_bytes_def

section \<open>Properties of the transcoder\<close>

lemma map_float_numeric:
  "\<forall>s\<in>set row. numeric_field env s \<Longrightarrow>
   \<exists>xs. map_float env row = Inr xs \<and>
        struct_pack env xs = Inr (concat (map (field_bytes env) row))"
proof (induction row)
  case Nil
  then show ?case by simp
next
  case (Cons s row)
  then obtain xs where xs: "map_float env row = Inr xs"
      "struct_pack env xs = Inr (concat (map (field_bytes env) row))"
    by auto
  from Cons.prems obtain x b where x: "py_float env s = Some x" "struct_pack_f env x = Some b"
    by (auto simp: numeric_field_def split: option.splits)
  then have "field_bytes env s = b" by (simp add: field_bytes_def)
  with xs x show ?case by simp
qed

lemma map_float_bad:
  "s \<in> set row \<Longrightarrow> py_float env s = None \<Longrightarrow> map_float env row = Inl ValueError"
proof (induction row)
  case Nil
  then show ?case by simp
next
  case (Cons a row)
  show ?case
  proof (cases "py_float env a")
    case None
    then show ?thesis by simp
  next
    case (Some x)
    with Cons.prems have "s \<in> set row" by auto
    from Cons.IH [OF this Cons.prems(2)] Some show ?thesis by simp
  qed
qed

lemma file_write_twice:
  "file_write p b (file_write p a w) = file_write p (a @ b) w"
  by (simp add: file_write_def split: option.splits)

lemma file_write_empty:
  "files w p = Some old \<Longrightarrow> file_write p [] w = w"
  by (simp add: file_write_def fun_upd_idem)

lemma file_write_present:
  "files (file_write p b w) p = Some ((case files w p of None \<Rightarrow> [] | Some old \<Rightarrow> old) @ b)"
  by (simp add: file_write_def)

lemma write_rows_numeric:
  "\<forall>row\<in>set rows. \<forall>s\<in>set row. numeric_field env s \<Longrightarrow> files w p = Some old \<Longrightarrow>
   write_rows env p rows w =
     (None, file_write p (concat (map (field_bytes env) (concat rows))) w)"
proof (induction rows arbitrary: w old)
  case Nil
  then show ?case by (simp add: file_write_empty)
next
  case (Cons row rows)
  then obtain xs where xs: "map_float env row = Inr xs"
      "struct_pack env xs = Inr (concat (map (field_bytes env) row))"
    using map_float_numeric [of row env] by auto
  from Cons.prems have "\<forall>row\<in>set rows. \<forall>s\<in>set row. numeric_field env s" by simp
  from Cons.IH [OF this file_write_present] xs show ?case
    by (simp add: file_write_twice)
qed

lemma write_rows_bad:
  assumes "\<forall>row\<in>set good. \<forall>s\<in>set row. numeric_field env s"
      and "s \<in> set bad" and "py_float env s = None"
      and "files w p = Some old"
  shows "write_rows env p (good @ bad # rest) w =
     (Some ValueError, file_write p (concat (map (field_bytes env) (concat good))) w)"
  using assms
proof (induction good arbitrary: w old)
  case Nil
  with map_float_bad [of s bad env] show ?case by (simp add: file_write_empty)
next
  case (Cons row good)
  then obtain xs where xs: "map_float env row = Inr xs"
      "struct_pack env xs = Inr (concat (map (field_bytes env) row))"
    using map_float_numeric [of row env] by auto
  from Cons.prems have "\<forall>row\<in>set good. \<forall>s\<in>set row. numeric_field env s" by simp
  from Cons.IH [OF this Cons.prems(2,3) file_write_present] xs show ?case
    by (simp add: file_write_twice)
qed

text \<open>
  C6. Let the rows after the header be some rows of numeric fields, then a row with a
  field that \<^verbatim>\<open>float\<close> rejects. Then \<open>convert_csv_to_binary\<close> raises ValueError at that
  row, and the output file exists and holds exactly the bytes of the rows before it.
\<close>

theorem convert_partial_write:
  assumes "files w csv_filename = Some text"
      and "csv_filename \<noteq> bin_filename"
      and "csv_reader env text = header # good @ bad # rest"
      and "\<forall>row\<in>set good. \<forall>s\<in>set row. numeric_field env s"
      and "s \<in> set bad" and "py_float env s = None"
  shows "convert_csv_to_binary env csv_filename bin_filename w =
           (Some ValueError,
            w\<lparr>files := (files w)(bin_filename \<mapsto> concat (map (field_bytes env) (concat good)))\<rparr>)"
proof -
  let ?w1 = "w\<lparr>files := (files w)(bin_filename \<mapsto> [])\<rparr>"
  have f1: "files ?w1 bin_filename = Some []" by simp
  have wr: "write_rows env bin_filename (good @ bad # rest) ?w1 =
      (Some ValueError, file_write bin_filename (concat (map (field_bytes env) (concat good))) ?w1)"
    by (rule write_rows_bad [OF assms(4,5,6) f1])
  show ?thesis
    using assms(1,2,3) wr
    by (simp add: convert_csv_to_binary_def isfile_def and_then_def file_write_def)
qed

theorem convert_partial_write_witness:
  "files bad_world ''bad.csv'' = Some ''t,v\<newline>0.5,1.0\<newline>2.5,oops\<newline>1.0,1.0\<newline>'' \<and>
   ''bad.csv'' \<noteq> ''bad.bin'' \<and>
   csv_reader test_env ''t,v\<newline>0.5,1.0\<newline>2.5,oops\<newline>1.0,1.0\<newline>'' =
     [''t'', ''v''] # [[''0.5'', ''1.0'']] @ [''2.5'', ''oops''] # [[''1.0'', ''1.0'']] \<and>
   list_all (list_all (numeric_field test_env)) [[''0.5'', ''1.0'']] \<and>
   ''oops'' \<in> set [''2.5'', ''oops''] \<and>
   py_float test_env ''oops'' = None \<and>
   fst (convert_csv_to_binary test_env ''bad.csv'' ''bad.bin'' bad_world) = Some ValueError \<and>
   files (snd (convert_csv_to_binary test_env ''bad.csv'' ''bad.bin'' bad_world)) ''bad.bin'' =
     Some [CHR 0x00, CHR 0x00, CHR 0x00, CHR 0x3F, CHR 0x00, CHR 0x00, CHR 0x80, CHR 0x3F]"
proof -
  have h1: "files bad_world ''bad.csv'' =
      Some ''t,v\<newline>0.5,1.0\<newline>2.5,oops\<newline>1.0,1.0\<newline>''"
    by (simp add: bad_world_def world0_def)
  have h2: "''bad.csv'' \<noteq> ''bad.bin''" by simp
  have h3: "csv_reader test_env ''t,v\<newline>0.5,1.0\<newline>2.5,oops\<newline>1.0,1.0\<newline>'' =
     [''t'', ''v''] # [[''0.5'', ''1.0'']] @ [''2.5'', ''oops''] # [[''1.0'', ''1.0'']]"
    by (simp add: test_env_def test_reader_bad)
  have h4: "\<forall>row\<in>set [[''0.5'', ''1.0'']]. \<forall>s\<in>set row. numeric_field test_env s"
    by (simp add: test_simps)
  have h5: "''oops'' \<in> set [''2.5'', ''oops'']" by simp
  have h6: "py_float test_env ''oops'' = None" by (simp add: test_simps)
  from convert_partial_write [OF h1 h2 h3 h4 h5 h6] h1 h2 h3 h4 h5 h6 show ?thesis
    by (simp add: test_simps)
qed

text \<open>
  C7. Called on a path that names no existing file, \<open>convert_csv_to_binary\<close> raises
  FileNotFoundError and leaves the state as it was: the output file is neither created
  nor modified.
\<close>

theorem convert_missing_file:
  "files w csv_filename = None \<Longrightarrow>
   convert_csv_to_binary env csv_filename bin_filename w = (Some FileNotFoundError, w)"
  by (simp add: convert_csv_to_binary_def isfile_def)

theorem convert_missing_file_witness:
  "files world0 ''missing.csv'' = None \<and>
   convert_csv_to_binary test_env ''missing.csv'' ''missing.bin'' world0 =
     (Some FileNotFoundError, world0)"
  using convert_missing_file [of world0 "''missing.csv''" test_env "''missing.bin''"]
  by (simp add: world0_def)

text \<open>
  C10. When the CSV file exists and is completely empty, so that the reader yields no
  row at all, \<open>convert_csv_to_binary\<close> raises StopIteration at the header skip, and the
  output file has been created, or truncated, and is empty.
\<close>

theorem convert_empty_file:
  assumes "files w csv_filename = Some []" and "csv_reader env [] = []"
  shows "convert_csv_to_binary env csv_filename bin_filename w =
           (Some StopIteration, w\<lparr>files := (files w)(bin_filename \<mapsto> [])\<rparr>)"
  using assms by (simp add: convert_csv_to_binary_def isfile_def)

theorem convert_empty_file_witness:
  "files (world0\<lparr>files := [''empty.csv'' \<mapsto> []]\<rparr>) ''empty.csv'' = Some [] \<and>
   csv_reader test_env [] = [] \<and>
   convert_csv_to_binary test_env ''empty.csv'' ''empty.bin''
       (world0\<lparr>files := [''empty.csv'' \<mapsto> []]\<rparr>) =
     (Some StopIteration,
      world0\<lparr>files := [''empty.csv'' \<mapsto> [], ''empty.bin'' \<mapsto> []]\<rparr>)"
  using convert_empty_file [of "world0\<lparr>files := [''empty.csv'' \<mapsto> []]\<rparr>" "''empty.csv''"
      test_env "''empty.bin''"]
  by (simp add: world0_def test_env_def test_reader_def)

subsection \<open>Further properties of the transcoder\<close>

lemma test_reader_ragged:
  "test_reader ''t,v\<newline>0.5\<newline>\<newline>2.5,1e40,1.0\<newline>'' =
     [[''t'', ''v''], [''0.5''], [], [''2.5'', ''1e40'', ''1.0'']]"
  by (simp add: test_reader_def)

text \<open>
  X1. The rows need not have the same number of fields: whatever their lengths, rows of
  numeric fields are transcoded without an error, each packed with as many floats as it
  has fields, an empty row adding nothing.
\<close>

theorem convert_rows_of_any_length:
  assumes "files w csv_filename = Some content"
      and "csv_filename \<noteq> bin_filename"
      and "csv_reader env content = header # rows"
      and "\<forall>row\<in>set rows. \<forall>s\<in>set row. numeric_field env s"
  shows "convert_csv_to_binary env csv_filename bin_filename w =
           (None,
            w\<lparr>files := (files w)(bin_filename \<mapsto> concat (map (field_bytes env) (concat rows))),
              stdout := stdout w @ [''Converted '' @ csv_filename @ '' to '' @ bin_filename]\<rparr>)"
proof -
  let ?w1 = "w\<lparr>files := (files w)(bin_filename \<mapsto> [])\<rparr>"
  have f1: "files ?w1 bin_filename = Some []" by simp
  have wr: "write_rows env bin_filename rows ?w1 =
      (None, file_write bin_filename (concat (map (field_bytes env) (concat rows))) ?w1)"
    by (rule write_rows_numeric [OF assms(4) f1])
  show ?thesis
    using assms(1,2,3) wr
    by (simp add: convert_csv_to_binary_def isfile_def and_then_def print_def file_write_def)
qed

theorem convert_rows_of_any_length_witness:
  "files ragged_world ''r.csv'' = Some ''t,v\<newline>0.5\<newline>\<newline>2.5,1e40,1.0\<newline>'' \<and>
   ''r.csv'' \<noteq> ''r.bin'' \<and>
   csv_reader test_env ''t,v\<newline>0.5\<newline>\<newline>2.5,1e40,1.0\<newline>'' =
     [''t'', ''v''] # [[''0.5''], [], [''2.5'', ''1e40'', ''1.0'']] \<and>
   list_all (list_all (numeric_field test_env)) [[''0.5''], [], [''2.5'', ''1e40'', ''1.0'']] \<and>
   fst (convert_csv_to_binary test_env ''r.csv'' ''r.bin'' ragged_world) = None \<and>
   files (snd (convert_csv_to_binary test_env ''r.csv'' ''r.bin'' ragged_world)) ''r.bin'' =
     Some [CHR 0x00, CHR 0x00, CHR 0x00, CHR 0x3F, CHR 0x00, CHR 0x00, CHR 0x20, CHR 0x40,
           CHR 0x00, CHR 0x00, CHR 0x80, CHR 0x7F, CHR 0x00, CHR 0x00, CHR 0x80, CHR 0x3F]"
proof -
  have h1: "files ragged_world ''r.csv'' = Some ''t,v\<newline>0.5\<newline>\<newline>2.5,1e40,1.0\<newline>''"
    by (simp add: ragged_world_def world0_def)
  have h2: "''r.csv'' \<noteq> ''r.bin''" by simp
  have h3: "csv_reader test_env ''t,v\<newline>0.5\<newline>\<newline>2.5,1e40,1.0\<newline>'' =
     [''t'', ''v''] # [[''0.5''], [], [''2.5'', ''1e40'', ''1.0'']]"
    by (simp add: test_env_def test_reader_ragged)
  have h4: "\<forall>row\<in>set [[''0.5''], [], [''2.5'', ''1e40'', ''1.0'']].
      \<forall>s\<in>set row. numeric_field test_env s"
    by (simp add: test_simps)
  from convert_rows_of_any_length [OF h1 h2 h3 h4] h1 h2 h3 h4 show ?thesis
    by (simp add: test_simps)
qed

text \<open>
  X3. Called with the same path for input and output, \<open>convert_csv_to_binary\<close> truncates
  the file before it reads it: it raises StopIteration and leaves the file empty. The
  composite operation does so for a CSV path whose extension is \<^verbatim>\<open>.bin\<close>.
\<close>

theorem convert_onto_itself:
  assumes "files w path = Some content" and "csv_reader env [] = []"
  shows "convert_csv_to_binary env path path w =
           (Some StopIteration, w\<lparr>files := (files w)(path \<mapsto> [])\<rparr>)"
  using assms by (simp add: convert_csv_to_binary_def isfile_def)

theorem convert_onto_itself_witness:
  "files alias_world ''wave.bin'' = Some ''t,v\<newline>0.5,1.0\<newline>'' \<and>
   csv_reader test_env [] = [] \<and>
   fst (convert_csv_to_binary test_env ''wave.bin'' ''wave.bin'' alias_world) =
     Some StopIteration \<and>
   files (snd (convert_csv_to_binary test_env ''wave.bin'' ''wave.bin'' alias_world)) ''wave.bin'' =
     Some []"
proof -
  have h1: "files alias_world ''wave.bin'' = Some ''t,v\<newline>0.5,1.0\<newline>''"
    by (simp add: alias_world_def world0_def)
  have h2: "csv_reader test_env [] = []" by (simp add: test_env_def test_reader_def)
  from convert_onto_itself [OF h1 h2] h1 h2 show ?thesis by simp
qed


section \<open>Properties of the composite operation\<close>

lemma run_calls_prefix:
  "run_calls env ios sent = (r, sent') \<Longrightarrow>
   \<exists>k\<le>length ios. sent' = sent @ take k ios \<and> (r = None \<longrightarrow> k = length ios) \<and>
     (r \<noteq> None \<longrightarrow> 0 < k \<and> r = Some DeviceError \<and>
        device_raises env (sent @ take (k - 1) ios) (ios ! (k - 1)))"
proof (induction ios arbitrary: sent)
  case Nil
  then show ?case by simp
next
  case (Cons io ios)
  show ?case
  proof (cases "device_raises env sent io")
    case True
    with Cons.prems have "r = Some DeviceError" "sent' = sent @ [io]" by simp_all
    with True show ?thesis by (intro exI [of _ 1]) simp
  next
    case False
    with Cons.prems have "run_calls env ios (sent @ [io]) = (r, sent')" by simp
    from Cons.IH [OF this] obtain k where k: "k \<le> length ios"
        "sent' = (sent @ [io]) @ take k ios" "r = None \<longrightarrow> k = length ios"
        "r \<noteq> None \<longrightarrow> 0 < k \<and> r = Some DeviceError \<and>
           device_raises env ((sent @ [io]) @ take (k - 1) ios) (ios ! (k - 1))"
      by blast
    show ?thesis
    proof (intro exI [of _ "Suc k"] conjI impI)
      show "Suc k \<le> length (io # ios)" using k(1) by simp
      show "sent' = sent @ take (Suc k) (io # ios)" using k(2) by simp
      show "Suc k = length (io # ios)" if "r = None" using that k(3) by simp
      show "0 < Suc k" by simp
      show "r = Some DeviceError" if "r \<noteq> None" using that k(4) by simp
      show "device_raises env (sent @ take (Suc k - 1) (io # ios)) ((io # ios) ! (Suc k - 1))"
        if "r \<noteq> None"
      proof -
        from that k(4) have "0 < k"
          and "device_raises env ((sent @ [io]) @ take (k - 1) ios) (ios ! (k - 1))" by simp_all
        then show ?thesis by (cases k) simp_all
      qed
    qed
  qed
qed

lemma write_rows_device_log:
  "write_rows env p rows w = (r, w') \<Longrightarrow> device_log w' = device_log w"
proof (induction rows arbitrary: w)
  case Nil
  then show ?case by auto
next
  case (Cons row rows)
  then show ?case
    by (fastforce simp: file_write_def split: sum.splits)
qed

lemma write_rows_file_present:
  "write_rows env p rows w = (r, w') \<Longrightarrow> files w p \<noteq> None \<Longrightarrow> files w' p \<noteq> None"
proof (induction rows arbitrary: w)
  case Nil
  then show ?case by auto
next
  case (Cons row rows)
  show ?case
  proof (cases "map_float env row")
    case (Inl e)
    with Cons.prems show ?thesis by auto
  next
    case (Inr xs)
    note xs = this
    show ?thesis
    proof (cases "struct_pack env xs")
      case (Inl e)
      with xs Cons.prems show ?thesis by auto
    next
      case (Inr b)
      with xs Cons.prems have "write_rows env p rows (file_write p b w) = (r, w')" by simp
      moreover have "files (file_write p b w) p \<noteq> None" by (simp add: file_write_def)
      ultimately show ?thesis by (rule Cons.IH)
    qed
  qed
qed

lemma convert_effect:
  assumes c: "convert_csv_to_binary env csv bin w = (r, w1)"
  shows "device_log w1 = device_log w \<and> (r = None \<longrightarrow> files w1 bin \<noteq> None)"
proof (cases "files w csv")
  case None
  with c have "r = Some FileNotFoundError" "w1 = w"
    by (auto simp: convert_csv_to_binary_def isfile_def)
  then show ?thesis by simp
next
  case (Some text0)
  let ?w1 = "w\<lparr>files := (files w)(bin \<mapsto> [])\<rparr>"
  from Some obtain content where t: "files ?w1 csv = Some content"
    by (cases "csv = bin") auto
  show ?thesis
  proof (cases "csv_reader env content")
    case Nil
    with c Some t have "r = Some StopIteration" "w1 = ?w1"
      by (auto simp: convert_csv_to_binary_def isfile_def Let_def simp del: fun_upd_apply)
    then show ?thesis by simp
  next
    case (Cons header rows)
    obtain r2 w2 where wr: "write_rows env bin rows ?w1 = (r2, w2)" by force
    have d: "device_log w2 = device_log w"
      using write_rows_device_log [OF wr] by simp
    have f: "files w2 bin \<noteq> None"
      using write_rows_file_present [OF wr] by simp
    from c Some t Cons wr have "(r, w1) =
        and_then (r2, w2) (\<lambda>w2. (None, print (''Converted '' @ csv @ '' to '' @ bin) w2))"
      by (simp add: convert_csv_to_binary_def isfile_def Let_def del: fun_upd_apply)
    with d f show ?thesis
      by (cases r2) (auto simp: and_then_def print_def)
  qed
qed

lemma and_then_return: "and_then (None, w) f = f w"
  by (simp add: and_then_def)

lemma and_then_assoc:
  "and_then (and_then r f) g = and_then r (\<lambda>w. and_then (f w) g)"
  by (cases r) (auto simp: and_then_def split: option.splits)

lemma run_calls_step:
  assumes "device_log w = sent" and "files w bin = Some data"
      and "\<And>w'. device_log w' = sent @ [io] \<Longrightarrow> files w' bin = Some data \<Longrightarrow>
             fst (f w') = fst (run_calls env ios (sent @ [io])) \<and>
             device_log (snd (f w')) = snd (run_calls env ios (sent @ [io])) \<and>
             files (snd (f w')) bin = Some data"
  shows "fst (and_then (device_call env io w) f) = fst (run_calls env (io # ios) sent) \<and>
         device_log (snd (and_then (device_call env io w) f)) =
           snd (run_calls env (io # ios) sent) \<and>
         files (snd (and_then (device_call env io w) f)) bin = Some data"
proof (cases "device_raises env sent io")
  case True
  with assms(1,2) show ?thesis
    by (simp add: device_call_def and_then_def)
next
  case False
  let ?w = "w\<lparr>device_log := device_log w @ [io]\<rparr>"
  have "and_then (device_call env io w) f = f ?w"
    using False assms(1) by (simp add: device_call_def and_then_def)
  moreover have "device_log ?w = sent @ [io]" "files ?w bin = Some data"
    using assms(1,2) by simp_all
  ultimately show ?thesis
    using assms(3) [of ?w] False by simp
qed

lemma run_calls_send:
  assumes "device_log w = sent" and "files w bin = Some data"
      and "\<And>w'. device_log w' = sent @ [Write c] \<Longrightarrow> files w' bin = Some data \<Longrightarrow>
             fst (f w') = fst (run_calls env ios (sent @ [Write c])) \<and>
             device_log (snd (f w')) = snd (run_calls env ios (sent @ [Write c])) \<and>
             files (snd (f w')) bin = Some data"
  shows "fst (and_then (send_command env c w) f) = fst (run_calls env (Write c # ios) sent) \<and>
         device_log (snd (and_then (send_command env c w) f)) =
           snd (run_calls env (Write c # ios) sent) \<and>
         files (snd (and_then (send_command env c w) f)) bin = Some data"
  unfolding send_command_def
  by (rule run_calls_step) (use assms in \<open>simp_all add: print_def\<close>)

lemma upload_as_run_calls:
  assumes "convert_csv_to_binary env csv (fst (splitext csv) @ ''.bin'') w = (None, w1)"
      and "files w1 (fst (splitext csv) @ ''.bin'') = Some data"
  shows "fst (upload_and_generate_waveform env chan csv f a p ofs w) =
           fst (run_calls env (upload_calls env chan csv f a p ofs data) (device_log w1)) \<and>
         device_log (snd (upload_and_generate_waveform env chan csv f a p ofs w)) =
           snd (run_calls env (upload_calls env chan csv f a p ofs data) (device_log w1)) \<and>
         files (snd (upload_and_generate_waveform env chan csv f a p ofs w))
           (fst (splitext csv) @ ''.bin'') = Some data"
  unfolding upload_and_generate_waveform_def Let_def assms(1) and_then_return
    save_binary_waveform_to_device_def assms(2) option.case and_then_assoc upload_calls_def
    set_arbitrary_waveform_by_name_def set_frequency_def set_amplitude_def set_phase_def
    set_offset_def start_waveform_def
  apply (rule run_calls_step [OF refl assms(2)])
  apply (rule run_calls_send)
    apply (simp add: print_def)
   apply (simp add: print_def)
  apply (rule run_calls_send, assumption, assumption)
  apply (rule run_calls_send, assumption, assumption)
  apply (rule run_calls_send, assumption, assumption)
  apply (rule run_calls_send, assumption, assumption)
  apply (rule run_calls_send, assumption, assumption)
  apply (simp add: print_def)
  done

lemma upload_log:
  assumes u: "upload_and_generate_waveform env chan csv f a p ofs w = (r, w')"
  shows "\<exists>k data. k \<le> 7 \<and>
           device_log w' = device_log w @ take k (upload_calls env chan csv f a p ofs data) \<and>
           (r = None \<longrightarrow> k = 7 \<and> files w' (fst (splitext csv) @ ''.bin'') = Some data) \<and>
           (r \<noteq> None \<and> 0 < k \<longrightarrow>
              r = Some DeviceError \<and> files w' (fst (splitext csv) @ ''.bin'') = Some data \<and>
              device_raises env
                (device_log w @ take (k - 1) (upload_calls env chan csv f a p ofs data))
                (upload_calls env chan csv f a p ofs data ! (k - 1)))"
proof -
  let ?bin = "fst (splitext csv) @ ''.bin''"
  obtain rc wc where c: "convert_csv_to_binary env csv ?bin w = (rc, wc)" by force
  from convert_effect [OF c] have d: "device_log wc = device_log w"
    and f: "rc = None \<longrightarrow> files wc ?bin \<noteq> None" by simp_all
  show ?thesis
  proof (cases rc)
    case (Some e)
    with c u have "r = Some e" "w' = wc"
      by (simp_all add: upload_and_generate_waveform_def and_then_def)
    with d show ?thesis by (intro exI [of _ 0]) simp
  next
    case None
    with f obtain data where data: "files wc ?bin = Some data" by auto
    let ?calls = "upload_calls env chan csv f a p ofs data"
    from c None have c': "convert_csv_to_binary env csv ?bin w = (None, wc)" by simp
    from upload_as_run_calls [OF c' data, of chan f a p ofs] u d
    have rc: "run_calls env ?calls (device_log w) = (r, device_log w')"
      and fw: "files w' ?bin = Some data"
      by (simp_all add: prod_eq_iff)
    from run_calls_prefix [OF rc] obtain k where k: "k \<le> length ?calls"
        "device_log w' = device_log w @ take k ?calls" "r = None \<longrightarrow> k = length ?calls"
        "r \<noteq> None \<longrightarrow> 0 < k \<and> r = Some DeviceError \<and>
           device_raises env (device_log w @ take (k - 1) ?calls) (?calls ! (k - 1))"
      by blast
    have len: "length ?calls = 7" by (simp add: upload_calls_def)
    from k fw len show ?thesis
      by (intro exI [of _ k] exI [of _ data]) simp
  qed
qed

lemma upload_calls_addressing:
  "list_all (\<lambda>io. case io of
               WriteBinary h d \<Rightarrow> prefix ''C1:'' h
             | Write c \<Rightarrow> prefix (''C'' @ str_int chan @ '':'') c)
     (upload_calls env chan csv f a p ofs data)"
  by (simp add: upload_calls_def)

lemma wave_bin: "fst (splitext ''wave.csv'') @ ''.bin'' = ''wave.bin''"
  by code_simp

lemma eval_wave_fst:
  "fst (upload_and_generate_waveform test_env 2 ''wave.csv'' 1000 (5 / 2) (1 / 2) 1 csv_world) =
     None"
  by code_simp

lemma eval_wave_log:
  "device_log (snd (upload_and_generate_waveform test_env 2 ''wave.csv'' 1000 (5 / 2) (1 / 2) 1
      csv_world)) =
   [WriteBinary ''C1:WVDT WVNM,wave,WAVEDATA,''
      [CHR 0x00, CHR 0x00, CHR 0x00, CHR 0x3F, CHR 0x00, CHR 0x00, CHR 0x80, CHR 0x3F,
       CHR 0x00, CHR 0x00, CHR 0x20, CHR 0x40, CHR 0x00, CHR 0x00, CHR 0x7A, CHR 0x44],
    Write ''C2:ARWV NAME,wave'',
    Write ''C2:BSWV FRQ,1000.0'',
    Write ''C2:BSWV AMP,2.5'',
    Write ''C2:BSWV PHSE,0.5'',
    Write ''C2:BSWV OFST,1.0'',
    Write ''C2:OUTP ON'']"
  by code_simp

lemma eval_failing_fst:
  "fst (upload_and_generate_waveform failing_env 2 ''wave.csv'' 1000 (5 / 2) (1 / 2) 1 csv_world) =
     Some DeviceError"
  by code_simp

lemma eval_failing_log:
  "device_log (snd (upload_and_generate_waveform failing_env 2 ''wave.csv'' 1000 (5 / 2) (1 / 2) 1
      csv_world)) =
   [WriteBinary ''C1:WVDT WVNM,wave,WAVEDATA,''
      [CHR 0x00, CHR 0x00, CHR 0x00, CHR 0x3F, CHR 0x00, CHR 0x00, CHR 0x80, CHR 0x3F,
       CHR 0x00, CHR 0x00, CHR 0x20, CHR 0x40, CHR 0x00, CHR 0x00, CHR 0x7A, CHR 0x44],
    Write ''C2:ARWV NAME,wave'',
    Write ''C2:BSWV FRQ,1000.0'']"
  by code_simp

lemma eval_dots_fst:
  "fst (upload_and_generate_waveform test_env 1 ''...'' 1000 (5 / 2) (1 / 2) 1 dots_world) = None"
  by code_simp

lemma eval_dots_log:
  "device_log (snd (upload_and_generate_waveform test_env 1 ''...'' 1000 (5 / 2) (1 / 2) 1
      dots_world)) =
   [WriteBinary ''C1:WVDT WVNM,....bin,WAVEDATA,'' [CHR 0x00, CHR 0x00, CHR 0x80, CHR 0x3F],
    Write ''C1:ARWV NAME,...'',
    Write ''C1:BSWV FRQ,1000.0'',
    Write ''C1:BSWV AMP,2.5'',
    Write ''C1:BSWV PHSE,0.5'',
    Write ''C1:BSWV OFST,1.0'',
    Write ''C1:OUTP ON'']"
  by code_simp

text \<open>
  C2. A run of \<open>upload_and_generate_waveform\<close> that completes has made exactly seven
  calls on the device, in this order: the binary upload of the transcoded file, select
  by name, frequency, amplitude, phase, offset, output enable. A run that raises has made
  the first \<open>k\<close> of these calls and no other; when \<open>k\<close> is zero the transcoding raised
  and nothing was sent, otherwise the last call made is the one on which the device
  raised, the calls before it stay made and the binary file stays on disk.
\<close>

theorem upload_command_order:
  assumes "upload_and_generate_waveform env chan csv f a p ofs w = (r, w')"
  shows "(r = None \<longrightarrow>
            (\<exists>data. files w' (fst (splitext csv) @ ''.bin'') = Some data \<and>
               device_log w' = device_log w @ upload_calls env chan csv f a p ofs data)) \<and>
         (r \<noteq> None \<longrightarrow>
            (\<exists>k data. k \<le> 7 \<and>
               device_log w' = device_log w @ take k (upload_calls env chan csv f a p ofs data) \<and>
               (0 < k \<longrightarrow>
                  r = Some DeviceError \<and>
                  files w' (fst (splitext csv) @ ''.bin'') = Some data \<and>
                  device_raises env
                    (device_log w @ take (k - 1) (upload_calls env chan csv f a p ofs data))
                    (upload_calls env chan csv f a p ofs data ! (k - 1)))))"
proof -
  from upload_log [OF assms] obtain k data where k: "k \<le> 7"
      "device_log w' = device_log w @ take k (upload_calls env chan csv f a p ofs data)"
      "r = None \<longrightarrow> k = 7 \<and> files w' (fst (splitext csv) @ ''.bin'') = Some data"
      "r \<noteq> None \<and> 0 < k \<longrightarrow>
         r = Some DeviceError \<and> files w' (fst (splitext csv) @ ''.bin'') = Some data \<and>
         device_raises env
           (device_log w @ take (k - 1) (upload_calls env chan csv f a p ofs data))
           (upload_calls env chan csv f a p ofs data ! (k - 1))"
    by blast
  have len: "length (upload_calls env chan csv f a p ofs data) = 7"
    by (simp add: upload_calls_def)
  show ?thesis
  proof (intro conjI impI)
    assume "r = None"
    with k len show "\<exists>data. files w' (fst (splitext csv) @ ''.bin'') = Some data \<and>
        device_log w' = device_log w @ upload_calls env chan csv f a p ofs data"
      by (intro exI [of _ data]) simp
  next
    assume "r \<noteq> None"
    with k show "\<exists>k data. k \<le> 7 \<and>
        device_log w' = device_log w @ take k (upload_calls env chan csv f a p ofs data) \<and>
        (0 < k \<longrightarrow>
           r = Some DeviceError \<and>
           files w' (fst (splitext csv) @ ''.bin'') = Some data \<and>
           device_raises env
             (device_log w @ take (k - 1) (upload_calls env chan csv f a p ofs data))
             (upload_calls env chan csv f a p ofs data ! (k - 1)))"
      by (intro exI [of _ k] exI [of _ data]) simp
  qed
qed

theorem upload_command_order_witness:
  "fst (upload_and_generate_waveform test_env 2 ''wave.csv'' 1000 (5 / 2) (1 / 2) 1 csv_world) =
     None \<and>
   (\<exists>data. files (snd (upload_and_generate_waveform test_env 2 ''wave.csv'' 1000 (5 / 2) (1 / 2) 1
               csv_world)) ''wave.bin'' = Some data \<and>
      device_log (snd (upload_and_generate_waveform test_env 2 ''wave.csv'' 1000 (5 / 2) (1 / 2) 1
               csv_world)) =
        device_log csv_world @
        upload_calls test_env 2 ''wave.csv'' 1000 (5 / 2) (1 / 2) 1 data) \<and>
   fst (upload_and_generate_waveform failing_env 2 ''wave.csv'' 1000 (5 / 2) (1 / 2) 1 csv_world) =
     Some DeviceError \<and>
   (\<exists>k data. k \<le> 7 \<and> 0 < k \<and>
      device_log (snd (upload_and_generate_waveform failing_env 2 ''wave.csv'' 1000 (5 / 2) (1 / 2) 1
               csv_world)) =
        device_log csv_world @
        take k (upload_calls failing_env 2 ''wave.csv'' 1000 (5 / 2) (1 / 2) 1 data) \<and>
      device_raises failing_env
        (device_log csv_world @
         take (k - 1) (upload_calls failing_env 2 ''wave.csv'' 1000 (5 / 2) (1 / 2) 1 data))
        (upload_calls failing_env 2 ''wave.csv'' 1000 (5 / 2) (1 / 2) 1 data ! (k - 1)))"
proof -
  let ?U = "upload_and_generate_waveform test_env 2 ''wave.csv'' 1000 (5 / 2) (1 / 2) 1 csv_world"
  let ?V = "upload_and_generate_waveform failing_env 2 ''wave.csv'' 1000 (5 / 2) (1 / 2) 1
      csv_world"
  have u: "?U = (fst ?U, snd ?U)" and v: "?V = (fst ?V, snd ?V)" by simp_all
  note a = eval_wave_fst
  have b: "\<exists>data. files (snd ?U) ''wave.bin'' = Some data \<and>
      device_log (snd ?U) =
        device_log csv_world @ upload_calls test_env 2 ''wave.csv'' 1000 (5 / 2) (1 / 2) 1 data"
    using upload_command_order [OF u] a by (simp add: wave_bin)
  note c = eval_failing_fst
  from upload_command_order [OF v] c obtain k data where k: "k \<le> 7"
      "device_log (snd ?V) = device_log csv_world @
         take k (upload_calls failing_env 2 ''wave.csv'' 1000 (5 / 2) (1 / 2) 1 data)"
      "0 < k \<longrightarrow> device_raises failing_env
        (device_log csv_world @
         take (k - 1) (upload_calls failing_env 2 ''wave.csv'' 1000 (5 / 2) (1 / 2) 1 data))
        (upload_calls failing_env 2 ''wave.csv'' 1000 (5 / 2) (1 / 2) 1 data ! (k - 1))"
    by auto
  have "k \<noteq> 0"
  proof
    assume "k = 0"
    with k(2) have "device_log (snd ?V) = device_log csv_world" by simp
    moreover have "device_log csv_world = []" by (simp add: csv_world_def world0_def)
    ultimately have "device_log (snd ?V) = []" by simp
    with eval_failing_log show False by simp
  qed
  with k have d: "\<exists>k data. k \<le> 7 \<and> 0 < k \<and>
      device_log (snd ?V) = device_log csv_world @
        take k (upload_calls failing_env 2 ''wave.csv'' 1000 (5 / 2) (1 / 2) 1 data) \<and>
      device_raises failing_env
        (device_log csv_world @
         take (k - 1) (upload_calls failing_env 2 ''wave.csv'' 1000 (5 / 2) (1 / 2) 1 data))
        (upload_calls failing_env 2 ''wave.csv'' 1000 (5 / 2) (1 / 2) 1 data ! (k - 1))"
    by (intro exI [of _ k] exI [of _ data]) simp
  from a b c d show ?thesis by (intro conjI)
qed

text \<open>
  C5. Whatever the channel argument, every binary write of a run of
  \<open>upload_and_generate_waveform\<close> has a header that starts with \<^verbatim>\<open>C1:\<close>, and every
  text command starts with \<^verbatim>\<open>C<channel>:\<close> for the channel asked for; a complete
  run is one binary write followed by six text commands.
\<close>

theorem upload_channel_addressing:
  assumes "upload_and_generate_waveform env chan csv f a p ofs w = (r, w')"
  shows "\<exists>new. device_log w' = device_log w @ new \<and>
           list_all (\<lambda>io. case io of
                       WriteBinary h d \<Rightarrow> prefix ''C1:'' h
                     | Write c \<Rightarrow> prefix (''C'' @ str_int chan @ '':'') c) new \<and>
           (r = None \<longrightarrow> (\<exists>h d cs. new = WriteBinary h d # map Write cs \<and> length cs = 6))"
proof -
  from upload_log [OF assms] obtain k data where k: "k \<le> 7"
      "device_log w' = device_log w @ take k (upload_calls env chan csv f a p ofs data)"
      "r = None \<longrightarrow> k = 7 \<and> files w' (fst (splitext csv) @ ''.bin'') = Some data"
    by blast
  let ?calls = "upload_calls env chan csv f a p ofs data"
  let ?P = "\<lambda>io. case io of
               WriteBinary h d \<Rightarrow> prefix ''C1:'' h
             | Write c \<Rightarrow> prefix (''C'' @ str_int chan @ '':'') c"
  have "list_all ?P (take k ?calls)"
    using upload_calls_addressing [of chan env csv f a p ofs data]
    unfolding list_all_iff by (blast dest: in_set_takeD)
  moreover have "\<exists>h d cs. take k ?calls = WriteBinary h d # map Write cs \<and> length cs = 6"
    if "r = None"
  proof -
    from that k(3) have "take k ?calls = ?calls" by (simp add: upload_calls_def)
    then show ?thesis
      unfolding upload_calls_def
      by (intro exI [of _ "''C1:WVDT WVNM,'' @
            fst (splitext (basename (fst (splitext csv) @ ''.bin''))) @ '',WAVEDATA,''"]
          exI [of _ data]
          exI [of _ "[''C'' @ str_int chan @ '':ARWV NAME,'' @ fst (splitext (basename csv)),
            ''C'' @ str_int chan @ '':BSWV FRQ,'' @ str_float env f,
            ''C'' @ str_int chan @ '':BSWV AMP,'' @ str_float env a,
            ''C'' @ str_int chan @ '':BSWV PHSE,'' @ str_float env p,
            ''C'' @ str_int chan @ '':BSWV OFST,'' @ str_float env ofs,
            ''C'' @ str_int chan @ '':OUTP ON'']"]) simp
  qed
  ultimately show ?thesis using k(2) by blast
qed

theorem upload_channel_addressing_witness:
  "fst (upload_and_generate_waveform test_env 2 ''wave.csv'' 1000 (5 / 2) (1 / 2) 1 csv_world) =
     None \<and>
   device_log (snd (upload_and_generate_waveform test_env 2 ''wave.csv'' 1000 (5 / 2) (1 / 2) 1
      csv_world)) =
   [WriteBinary ''C1:WVDT WVNM,wave,WAVEDATA,''
      [CHR 0x00, CHR 0x00, CHR 0x00, CHR 0x3F, CHR 0x00, CHR 0x00, CHR 0x80, CHR 0x3F,
       CHR 0x00, CHR 0x00, CHR 0x20, CHR 0x40, CHR 0x00, CHR 0x00, CHR 0x7A, CHR 0x44],
    Write ''C2:ARWV NAME,wave'',
    Write ''C2:BSWV FRQ,1000.0'',
    Write ''C2:BSWV AMP,2.5'',
    Write ''C2:BSWV PHSE,0.5'',
    Write ''C2:BSWV OFST,1.0'',
    Write ''C2:OUTP ON''] \<and>
   (\<exists>new. device_log (snd (upload_and_generate_waveform test_env 2 ''wave.csv'' 1000 (5 / 2)
               (1 / 2) 1 csv_world)) = device_log csv_world @ new \<and>
      list_all (\<lambda>io. case io of
                  WriteBinary h d \<Rightarrow> prefix ''C1:'' h
                | Write c \<Rightarrow> prefix (''C'' @ str_int 2 @ '':'') c) new \<and>
      (\<exists>h d cs. new = WriteBinary h d # map Write cs \<and> length cs = 6))"
proof -
  let ?U = "upload_and_generate_waveform test_env 2 ''wave.csv'' 1000 (5 / 2) (1 / 2) 1 csv_world"
  have u: "?U = (fst ?U, snd ?U)" by simp
  note a = eval_wave_fst
  note b = eval_wave_log
  have c: "\<exists>new. device_log (snd ?U) = device_log csv_world @ new \<and>
      list_all (\<lambda>io. case io of
                  WriteBinary h d \<Rightarrow> prefix ''C1:'' h
                | Write c \<Rightarrow> prefix (''C'' @ str_int 2 @ '':'') c) new \<and>
      (\<exists>h d cs. new = WriteBinary h d # map Write cs \<and> length cs = 6)"
    using upload_channel_addressing [OF u] a by simp
  from a b c show ?thesis by (intro conjI)
qed

text \<open>
  C8, at a file named by three dots. \<^verbatim>\<open>splitext\<close> keeps leading dots in the root, so
  the binary path is \<^verbatim>\<open>....bin\<close> and the name under which the payload is stored is
  \<^verbatim>\<open>....bin\<close>, while the name selected afterwards is \<^verbatim>\<open>...\<close>: the device is
  asked to select a waveform that was stored under another name.
\<close>

theorem dots_name_mismatch:
  "fst (upload_and_generate_waveform test_env 1 ''...'' 1000 (5 / 2) (1 / 2) 1 dots_world) = None \<and>
   take 2 (device_log (snd (upload_and_generate_waveform test_env 1 ''...'' 1000 (5 / 2) (1 / 2) 1
      dots_world))) =
   [WriteBinary ''C1:WVDT WVNM,....bin,WAVEDATA,'' [CHR 0x00, CHR 0x00, CHR 0x80, CHR 0x3F],
    Write ''C1:ARWV NAME,...'']"
  by (simp add: eval_dots_fst eval_dots_log)

subsection \<open>The waveform name\<close>

lemma rfind_absent: "c \<notin> set s \<Longrightarrow> rfind c s = - 1"
  by (induction s) (auto simp: Let_def)

lemma rfind_less: "rfind c s < int (length s)"
  by (induction s) (simp_all add: Let_def)

lemma rfind_last: "c \<notin> set ys \<Longrightarrow> rfind c (xs @ c # ys) = int (length xs)"
  by (induction xs) (simp_all add: Let_def rfind_absent)

lemma rfind_append_absent: "c \<notin> set b \<Longrightarrow> rfind c (d @ b) = rfind c d"
  by (induction d) (simp_all add: Let_def rfind_absent)

lemma path_split:
  obtains d b where "p = d @ b" and "CHR ''/'' \<notin> set b"
    and "rfind CHR ''/'' p + 1 = int (length d)"
proof (cases "CHR ''/'' \<in> set p")
  case True
  then obtain xs ys where s: "p = xs @ CHR ''/'' # ys" "CHR ''/'' \<notin> set ys"
    by (auto dest: split_list_last)
  then have "rfind CHR ''/'' p + 1 = int (length (xs @ [CHR ''/'']))"
    by (simp add: rfind_last)
  with s that [of "xs @ [CHR ''/'']" ys] show ?thesis by simp
next
  case False
  then have "rfind CHR ''/'' p + 1 = int (length ([] :: string))"
    by (simp add: rfind_absent)
  with False that [of "[]" p] show ?thesis by simp
qed

lemma basename_dir:
  assumes "CHR ''/'' \<notin> set b" and "rfind CHR ''/'' (d @ b) + 1 = int (length d)"
  shows "basename (d @ b) = b"
  using assms by (simp add: basename_def)

lemma splitext_no_dot:
  assumes "CHR ''/'' \<notin> set b" and "CHR ''.'' \<notin> set b"
  shows "splitext b = (b, [])"
  using assms by (simp add: splitext_def rfind_absent)

lemma splitext_last_dot:
  assumes "CHR ''/'' \<notin> set xs" and "CHR ''/'' \<notin> set ys" and "CHR ''.'' \<notin> set ys"
  shows "splitext (xs @ CHR ''.'' # ys) =
           (if list_ex (\<lambda>c. c \<noteq> CHR ''.'') xs then (xs, CHR ''.'' # ys)
            else (xs @ CHR ''.'' # ys, []))"
proof -
  have "rfind CHR ''/'' (xs @ CHR ''.'' # ys) = - 1"
    using assms by (simp add: rfind_absent)
  moreover have "rfind CHR ''.'' (xs @ CHR ''.'' # ys) = int (length xs)"
    using assms by (simp add: rfind_last)
  ultimately show ?thesis by (simp add: splitext_def)
qed

lemma splitext_dir:
  assumes b: "CHR ''/'' \<notin> set b" and d: "rfind CHR ''/'' (d @ b) + 1 = int (length d)"
  shows "fst (splitext (d @ b)) = d @ fst (splitext b)"
proof (cases "CHR ''.'' \<in> set b")
  case False
  then have "rfind CHR ''.'' (d @ b) = rfind CHR ''.'' d" by (simp add: rfind_append_absent)
  with rfind_less [of "CHR ''.''" d] d have "\<not> rfind CHR ''.'' (d @ b) > rfind CHR ''/'' (d @ b)"
    by simp
  then have "splitext (d @ b) = (d @ b, [])" by (simp add: splitext_def)
  with splitext_no_dot [OF b False] show ?thesis by simp
next
  case True
  then obtain xs ys where s: "b = xs @ CHR ''.'' # ys" "CHR ''.'' \<notin> set ys"
    by (auto dest: split_list_last)
  with b have n: "CHR ''/'' \<notin> set xs" "CHR ''/'' \<notin> set ys" by simp_all
  have dot: "rfind CHR ''.'' (d @ b) = int (length d + length xs)"
    using rfind_last [of "CHR ''.''" ys "d @ xs"] s by simp
  have sep: "rfind CHR ''/'' (d @ b) = int (length d) - 1" using d by simp
  have "splitext (d @ b) =
      (if list_ex (\<lambda>c. c \<noteq> CHR ''.'') xs then (d @ xs, CHR ''.'' # ys) else (d @ b, []))"
    unfolding splitext_def dot sep using s by (simp add: Let_def)
  with splitext_last_dot [OF n s(2)] s show ?thesis by simp
qed

lemma root_properties:
  assumes b: "CHR ''/'' \<notin> set b" and nd: "list_ex (\<lambda>c. c \<noteq> CHR ''.'') b"
  shows "CHR ''/'' \<notin> set (fst (splitext b)) \<and> list_ex (\<lambda>c. c \<noteq> CHR ''.'') (fst (splitext b))"
proof (cases "CHR ''.'' \<in> set b")
  case False
  with splitext_no_dot [OF b] b nd show ?thesis by simp
next
  case True
  then obtain xs ys where s: "b = xs @ CHR ''.'' # ys" "CHR ''.'' \<notin> set ys"
    by (auto dest: split_list_last)
  with b have n: "CHR ''/'' \<notin> set xs" "CHR ''/'' \<notin> set ys" by simp_all
  from splitext_last_dot [OF n s(2)] s b nd show ?thesis by auto
qed

lemma eval_names:
  "basename ''data/wave.csv'' = ''wave.csv''"
  "fst (splitext (basename (fst (splitext ''data/wave.csv'') @ ''.bin''))) = ''wave''"
  "fst (splitext (basename ''data/wave.csv'')) = ''wave''"
  by code_simp+

text \<open>
  X4. When the base name of the CSV path has a character that is not a dot, the name
  under which the payload is stored and the name selected afterwards are the same: the
  base name without its extension.
\<close>

theorem waveform_names_agree:
  assumes "list_ex (\<lambda>c. c \<noteq> CHR ''.'') (basename csv_filename)"
  shows "fst (splitext (basename (fst (splitext csv_filename) @ ''.bin''))) =
           fst (splitext (basename csv_filename))"
proof -
  obtain d b where p: "csv_filename = d @ b" and b: "CHR ''/'' \<notin> set b"
    and d: "rfind CHR ''/'' csv_filename + 1 = int (length d)"
    by (rule path_split)
  from d p have d': "rfind CHR ''/'' (d @ b) + 1 = int (length d)" by simp
  have base: "basename csv_filename = b" using basename_dir [OF b d'] p by simp
  let ?r = "fst (splitext b)"
  from assms base have nd: "list_ex (\<lambda>c. c \<noteq> CHR ''.'') b" by simp
  from root_properties [OF b nd] have r: "CHR ''/'' \<notin> set ?r"
    "list_ex (\<lambda>c. c \<noteq> CHR ''.'') ?r" by simp_all
  have bin: "fst (splitext csv_filename) @ ''.bin'' = d @ (?r @ ''.bin'')"
    using splitext_dir [OF b d'] p by simp
  have rb: "CHR ''/'' \<notin> set (?r @ ''.bin'')" using r(1) by simp
  have "rfind CHR ''/'' (d @ (?r @ ''.bin'')) + 1 = int (length d)"
  proof -
    have "rfind CHR ''/'' (d @ (?r @ ''.bin'')) = rfind CHR ''/'' d"
      using rb by (rule rfind_append_absent)
    moreover have "rfind CHR ''/'' (d @ b) = rfind CHR ''/'' d"
      using b by (rule rfind_append_absent)
    ultimately show ?thesis using d' by simp
  qed
  from basename_dir [OF rb this] bin
  have "basename (fst (splitext csv_filename) @ ''.bin'') = ?r @ ''.bin''" by simp
  moreover have "splitext (?r @ CHR ''.'' # ''bin'') = (?r, ''.bin'')"
    using splitext_last_dot [of ?r "''bin''"] r by simp
  ultimately show ?thesis using base by simp
qed

theorem waveform_names_agree_witness:
  "list_ex (\<lambda>c. c \<noteq> CHR ''.'') (basename ''data/wave.csv'') \<and>
   fst (splitext (basename (fst (splitext ''data/wave.csv'') @ ''.bin''))) = ''wave'' \<and>
   fst (splitext (basename ''data/wave.csv'')) = ''wave''"
proof -
  have h: "list_ex (\<lambda>c. c \<noteq> CHR ''.'') (basename ''data/wave.csv'')"
    by (simp add: eval_names)
  from waveform_names_agree [OF h] h show ?thesis by (simp add: eval_names)
qed

section \<open>Properties of the remote command\<close>

lemma str_split_stop: "str_split ''stop'' = [''stop'']"
  by (simp add: str_split_def isspace_def)

text \<open>
  C9. The command string \<open>stop\<close> makes exactly one call on the device handle: the
  write of \<^verbatim>\<open>C<channel>:OUTP OFF\<close> for the configured channel.
\<close>

theorem stop_issues_one_command:
  "redis w (self_redis_key g) = Some ''stop'' \<Longrightarrow>
   device_log (snd (execute_redis_command env g w)) =
     device_log w @ [Write (''C'' @ str_int (self_channel g) @ '':OUTP OFF'')]"
  by (simp add: execute_redis_command_def str_split_stop item_def stop_waveform_def
      send_command_def device_call_def print_def Let_def)

theorem stop_issues_one_command_witness:
  "redis (world0\<lparr>redis := [''cmd'' \<mapsto> ''stop'']\<rparr>) (self_redis_key gui2) = Some ''stop'' \<and>
   device_log (snd (execute_redis_command test_env gui2
       (world0\<lparr>redis := [''cmd'' \<mapsto> ''stop'']\<rparr>))) = [Write ''C2:OUTP OFF'']"
  using stop_issues_one_command [of "world0\<lparr>redis := [''cmd'' \<mapsto> ''stop'']\<rparr>" gui2 test_env]
  by (simp add: world0_def gui2_def str_int_2)

text \<open>
  C4. For a command of three words whose verb is \<open>upload\<close>, the third word is taken as
  the CSV path. When it names no existing file, a line is printed, nothing is raised and
  no call is made on the device. Otherwise the composite operation is called with two
  arguments only, the configured channel and the path; as the method declares six
  required parameters, that call raises TypeError before its body runs and the state is
  unchanged.
\<close>

theorem upload_command_omits_parameters:
  assumes "redis w (self_redis_key g) = Some command"
      and "str_split command = [''upload'', token, csv_filename]"
  shows "execute_redis_command env g w =
           (if files w csv_filename = None
            then (None, w\<lparr>stdout := stdout w @
                    [''No such file: '' @ [CHR 0x27] @ csv_filename @ [CHR 0x27]]\<rparr>)
            else call_upload_and_generate_waveform env
                   [PInt (self_channel g), PStr csv_filename] w) \<and>
         call_upload_and_generate_waveform env [PInt (self_channel g), PStr csv_filename] w =
           (Some TypeError, w)"
  using assms
  by (simp add: execute_redis_command_def item_def isfile_def print_def)

lemma str_split_upload: "str_split ''upload x wave.csv'' = [''upload'', ''x'', ''wave.csv'']"
  by (simp add: str_split_def isspace_def)

theorem upload_command_omits_parameters_witness:
  "redis (world0\<lparr>files := [''wave.csv'' \<mapsto> ''v''], redis := [''cmd'' \<mapsto> ''upload x wave.csv'']\<rparr>)
      (self_redis_key gui2) = Some ''upload x wave.csv'' \<and>
   str_split ''upload x wave.csv'' = [''upload'', ''x'', ''wave.csv''] \<and>
   execute_redis_command test_env gui2
      (world0\<lparr>files := [''wave.csv'' \<mapsto> ''v''], redis := [''cmd'' \<mapsto> ''upload x wave.csv'']\<rparr>) =
     (Some TypeError,
      world0\<lparr>files := [''wave.csv'' \<mapsto> ''v''], redis := [''cmd'' \<mapsto> ''upload x wave.csv'']\<rparr>)"
  using upload_command_omits_parameters [of
      "world0\<lparr>files := [''wave.csv'' \<mapsto> ''v''], redis := [''cmd'' \<mapsto> ''upload x wave.csv'']\<rparr>"
      gui2 "''upload x wave.csv''" "''x''" "''wave.csv''" test_env]
  by (simp add: world0_def gui2_def str_split_upload)

text \<open>
  C3, as stated, fails: the words of \<open>set X 1000 2.5\<close> are the verb and three more, the
  third word (\<open>1000\<close>) is taken as the waveform type, the fourth (\<open>2.5\<close>) as the
  frequency, and reading the fifth raises IndexError, after two commands and before any
  amplitude or output-enable command.
\<close>

lemma str_split_set4: "str_split ''set X 1000 2.5'' = [''set'', ''X'', ''1000'', ''2.5'']"
  by (simp add: str_split_def isspace_def)

theorem set_four_words_counterexample:
  "fst (execute_redis_command test_env gui1 (world0\<lparr>redis := [''cmd'' \<mapsto> ''set X 1000 2.5'']\<rparr>))
     = Some IndexError \<and>
   device_log (snd (execute_redis_command test_env gui1
       (world0\<lparr>redis := [''cmd'' \<mapsto> ''set X 1000 2.5'']\<rparr>)))
     = [Write ''C1:BSWV WVTP,1000'', Write ''C1:BSWV FRQ,2.5'']"
  by (simp add: execute_redis_command_def str_split_set4 item_def world0_def gui1_def
      set_waveform_type_def set_frequency_def send_command_result and_then_def
      test_env_def test_float_def test_str_def str_int_1)

text \<open>
  C3, amended. For a command of five words, the verb \<open>set\<close>, an unused word, the waveform
  type, the frequency and the amplitude, with a device that raises on no call, the
  commands written are these four, in this order, on the configured channel: waveform
  type, frequency, amplitude, output enable. No phase or offset command is written.
\<close>

theorem set_command_calls:
  assumes "redis w (self_redis_key g) = Some command"
      and "str_split command = [''set'', token, waveform_type, f, a]"
      and "py_float env f = Some frequency"
      and "py_float env a = Some amplitude"
      and "\<And>log io. \<not> device_raises env log io"
  shows "fst (execute_redis_command env g w) = None \<and>
         device_log (snd (execute_redis_command env g w)) =
           device_log w @
           [Write (''C'' @ str_int (self_channel g) @ '':BSWV WVTP,'' @ waveform_type),
            Write (''C'' @ str_int (self_channel g) @ '':BSWV FRQ,'' @ str_float env frequency),
            Write (''C'' @ str_int (self_channel g) @ '':BSWV AMP,'' @ str_float env amplitude),
            Write (''C'' @ str_int (self_channel g) @ '':OUTP ON'')]"
  using assms
  by (simp add: execute_redis_command_def item_def
      set_waveform_type_def set_frequency_def set_amplitude_def start_waveform_def
      send_command_result and_then_def)

lemma str_split_set5: "str_split ''set - X 1000 2.5'' = [''set'', ''-'', ''X'', ''1000'', ''2.5'']"
  by (simp add: str_split_def isspace_def)

theorem set_command_calls_witness:
  "redis (world0\<lparr>redis := [''cmd'' \<mapsto> ''set - X 1000 2.5'']\<rparr>) (self_redis_key gui1)
     = Some ''set - X 1000 2.5'' \<and>
   str_split ''set - X 1000 2.5'' = [''set'', ''-'', ''X'', ''1000'', ''2.5''] \<and>
   py_float test_env ''1000'' = Some 1000 \<and>
   py_float test_env ''2.5'' = Some (5 / 2) \<and>
   (\<forall>log io. \<not> device_raises test_env log io) \<and>
   fst (execute_redis_command test_env gui1 (world0\<lparr>redis := [''cmd'' \<mapsto> ''set - X 1000 2.5'']\<rparr>))
     = None \<and>
   device_log (snd (execute_redis_command test_env gui1
       (world0\<lparr>redis := [''cmd'' \<mapsto> ''set - X 1000 2.5'']\<rparr>)))
     = [Write ''C1:BSWV WVTP,X'', Write ''C1:BSWV FRQ,1000.0'', Write ''C1:BSWV AMP,2.5'',
        Write ''C1:OUTP ON'']"
  using set_command_calls [of "world0\<lparr>redis := [''cmd'' \<mapsto> ''set - X 1000 2.5'']\<rparr>" gui1
      "''set - X 1000 2.5''" "''-''" "''X''" "''1000''" "''2.5''" test_env 1000 "5 / 2"]
  by (simp add: world0_def gui1_def str_split_set5 test_env_def test_float_def test_str_def
      str_int_1)

lemma str_split_start: "str_split ''start 1'' = [''start'', ''1'']"
  by (simp add: str_split_def isspace_def)

text \<open>
  X5. A command whose verb is none of \<open>upload\<close>, \<open>set\<close> and \<open>stop\<close> prints a diagnostic,
  raises nothing and makes no call on the device.
\<close>

theorem unknown_verb_is_ignored:
  assumes "redis w (self_redis_key g) = Some command"
      and "str_split command = verb # args"
      and "verb \<noteq> ''upload''" and "verb \<noteq> ''set''" and "verb \<noteq> ''stop''"
  shows "execute_redis_command env g w = (None, w\<lparr>stdout := stdout w @ [''Unknown command.'']\<rparr>)"
  using assms by (simp add: execute_redis_command_def item_def print_def)

theorem unknown_verb_is_ignored_witness:
  "redis (world0\<lparr>redis := [''cmd'' \<mapsto> ''start 1'']\<rparr>) (self_redis_key gui1) = Some ''start 1'' \<and>
   str_split ''start 1'' = ''start'' # [''1''] \<and>
   ''start'' \<noteq> ''upload'' \<and> ''start'' \<noteq> ''set'' \<and> ''start'' \<noteq> ''stop'' \<and>
   execute_redis_command test_env gui1 (world0\<lparr>redis := [''cmd'' \<mapsto> ''start 1'']\<rparr>) =
     (None, world0\<lparr>redis := [''cmd'' \<mapsto> ''start 1''], stdout := [''Unknown command.'']\<rparr>)"
  using unknown_verb_is_ignored [of "world0\<lparr>redis := [''cmd'' \<mapsto> ''start 1'']\<rparr>" gui1
      "''start 1''" "''start''" "[''1'']" test_env]
  by (simp add: world0_def gui1_def str_split_start)

end
